theory Spec2Isabelle
  imports Main "HOL-Library.Word"
begin

section \<open>Device registration form (src/App.tsx)\<close>

text \<open>
  The component \<open>App\<close> keeps four pieces of React state (\<open>fullName\<close>, \<open>currentIp\<close>,
  \<open>status\<close>, \<open>errorMessage\<close>) and has two asynchronous handlers: \<open>fetchIp\<close>, run once by
  the mount effect, and \<open>handleRegister\<close>, the form's submit handler. Each handler is
  split at its \<open>await\<close>: the part that runs synchronously, and the continuation that
  runs when the awaited promise settles. The outcome of a network call is an input of
  the continuation.
\<close>

subsection \<open>JavaScript values and strings\<close>

text \<open>
  A JavaScript string is a sequence of UTF-16 code units. A number is carried as the 64
  bits of its IEEE double; no arithmetic is done on it here. An object is the list of its
  own properties.
\<close>

type_synonym jsstring = "16 word list"

datatype jsval =
    JUndefined
  | JNull
  | JBool bool
  | JNum "64 word"
  | JStr jsstring
  | JArr "jsval list"
  | JObj "(jsstring \<times> jsval) list"

definition ascii :: "string \<Rightarrow> jsstring" where
  "ascii cs = map (\<lambda>c. of_nat (of_char c)) cs"

text \<open>
  \<open>String.prototype.trim\<close> strips WhiteSpace and LineTerminator code points from both
  ends (ECMAScript: TAB, VT, FF, ZWNBSP, the space separators of Unicode, and LF, CR, LS,
  PS). All of them are single code units.
\<close>

definition isWhiteSpace :: "16 word \<Rightarrow> bool" where
  "isWhiteSpace c \<longleftrightarrow>
     c = 0x0009 \<or> c = 0x000B \<or> c = 0x000C \<or> c = 0xFEFF \<or>
     c = 0x0020 \<or> c = 0x00A0 \<or> c = 0x1680 \<or> (0x2000 \<le> c \<and> c \<le> 0x200A) \<or>
     c = 0x202F \<or> c = 0x205F \<or> c = 0x3000"

definition isLineTerminator :: "16 word \<Rightarrow> bool" where
  "isLineTerminator c \<longleftrightarrow> c = 0x000A \<or> c = 0x000D \<or> c = 0x2028 \<or> c = 0x2029"

definition strippable :: "16 word \<Rightarrow> bool" where
  "strippable c \<longleftrightarrow> isWhiteSpace c \<or> isLineTerminator c"

definition trim :: "jsstring \<Rightarrow> jsstring" where
  "trim s = rev (dropWhile strippable (rev (dropWhile strippable s)))"

text \<open>
  \<open>v !== s\<close> for a string \<open>s\<close>: strict inequality never converts, so only a string value
  with the same code units is equal to \<open>s\<close>.
\<close>

fun strict_neq_string :: "jsval \<Rightarrow> jsstring \<Rightarrow> bool" where
  "strict_neq_string (JStr t) s = (t \<noteq> s)"
| "strict_neq_string _ s = True"

text \<open>
  \<open>data.ip\<close> on a value that \<open>response.json()\<close> produced: reading a property of \<open>null\<close>
  (or \<open>undefined\<close>) throws a TypeError, which is \<open>None\<close> here; an object gives its own
  property \<open>ip\<close>, or \<open>undefined\<close> when it has none; a boolean, number, string or array has
  no property of that name.
\<close>

fun get_ip :: "jsval \<Rightarrow> jsval option" where
  "get_ip JNull = None"
| "get_ip JUndefined = None"
| "get_ip (JObj props) =
     (case map_of props (ascii ''ip'') of Some v \<Rightarrow> Some v | None \<Rightarrow> Some JUndefined)"
| "get_ip _ = Some JUndefined"

subsection \<open>Component state\<close>

datatype AppStatus = Idle | Loading_ip | Ready | Submitting | Success | Error

record app_state =
  fullName :: jsstring
  currentIp :: jsval
  status :: AppStatus
  errorMessage :: "jsstring option"

text \<open>The arguments of the four \<open>useState\<close> calls.\<close>

definition initial :: app_state where
  "initial = \<lparr>fullName = [], currentIp = JNull, status = Loading_ip, errorMessage = None\<rparr>"

text \<open>
  The module \<open>./constants\<close> is not part of the sources: its three exports are
  parameters. They are strings (the office address is compared by exact match).
\<close>

record constants =
  OFFICE_IP :: jsstring
  WEBHOOK_URL :: jsstring
  IP_API :: jsstring

subsection \<open>Network calls\<close>

datatype http_method = GET | POST

datatype request_mode = Cors | No_cors

text \<open>The object literal that \<open>handleRegister\<close> passes to \<open>JSON.stringify\<close>.\<close>

record payload =
  name :: jsstring
  userAgent :: jsstring
  ip :: jsval

text \<open>
  A call of \<open>fetch\<close>; \<open>request_method\<close> is its \<open>method\<close> option. The field \<open>body\<close> is
  the value whose \<open>JSON.stringify\<close> text is the request body, when there is one.
\<close>

record request =
  url :: jsstring
  request_method :: http_method
  mode :: request_mode
  headers :: "(jsstring \<times> jsstring) list"
  body :: "payload option"

text \<open>
  How the identity lookup settles: \<open>fetch\<close> rejects, or resolves to a response with an
  HTTP status and a body; \<open>response.json()\<close> gives the parsed body, or rejects (\<open>None\<close>)
  when the body is not JSON.
\<close>

datatype lookup_outcome = FetchRejected | Responded nat "jsval option"

definition ok :: "nat \<Rightarrow> bool" where
  "ok code \<longleftrightarrow> 200 \<le> code \<and> code \<le> 299"

text \<open>
  How the webhook POST settles. The response is opaque (\<open>no-cors\<close>) and is never read, so
  only whether the promise resolves or rejects is an input.
\<close>

datatype post_outcome = PostResolved | PostRejected

subsection \<open>fetchIp\<close>

definition fetchIp_begin :: "constants \<Rightarrow> app_state \<Rightarrow> app_state \<times> request list" where
  "fetchIp_begin c s =
     (s\<lparr>status := Loading_ip\<rparr>,
      [\<lparr>url = IP_API c, request_method = GET, mode = Cors, headers = [], body = None\<rparr>])"

definition fetchIp_catch :: "app_state \<Rightarrow> app_state" where
  "fetchIp_catch s =
     s\<lparr>errorMessage := Some (ascii ''Could not verify your network connection.''),
       status := Error\<rparr>"

definition fetchIp_settle :: "lookup_outcome \<Rightarrow> app_state \<Rightarrow> app_state" where
  "fetchIp_settle outcome s =
     (case outcome of
        FetchRejected \<Rightarrow> fetchIp_catch s
      | Responded code parsed \<Rightarrow>
          if \<not> ok code then fetchIp_catch s
          else (case parsed of
                  None \<Rightarrow> fetchIp_catch s
                | Some data \<Rightarrow>
                    (case get_ip data of
                       None \<Rightarrow> fetchIp_catch s
                     | Some v \<Rightarrow> s\<lparr>currentIp := v, status := Ready\<rparr>)))"

subsection \<open>handleRegister\<close>

text \<open>The policy message of line 41; its two accented letters are U+00F2 and U+00F9.\<close>

definition wrong_network_message :: jsstring where
  "wrong_network_message =
     ascii ''Vui l'' @ [0x00F2] @ ascii ''ng d'' @ [0x00F9] @ ascii ''ng Wifi OAC''"

text \<open>
  The synchronous part, up to \<open>await fetch(WEBHOOK_URL, ...)\<close>: the new state and the
  requests dispatched. The second argument is \<open>navigator.userAgent\<close>.
\<close>

definition handleRegister_begin ::
    "constants \<Rightarrow> jsstring \<Rightarrow> app_state \<Rightarrow> app_state \<times> request list" where
  "handleRegister_begin c ua s =
     (if trim (fullName s) = [] then
        (s\<lparr>errorMessage := Some (ascii ''Please enter your full name.'')\<rparr>, [])
      else if strict_neq_string (currentIp s) (OFFICE_IP c) then
        (s\<lparr>errorMessage := Some wrong_network_message\<rparr>, [])
      else
        (s\<lparr>errorMessage := None, status := Submitting\<rparr>,
         [\<lparr>url = WEBHOOK_URL c, request_method = POST, mode = No_cors,
           headers = [(ascii ''Content-Type'', ascii ''application/json'')],
           body = Some \<lparr>name = fullName s, userAgent = ua, ip = currentIp s\<rparr>\<rparr>]))"

text \<open>The continuation: line 69 when the promise resolves, the \<open>catch\<close> block otherwise.\<close>

definition handleRegister_settle :: "post_outcome \<Rightarrow> app_state \<Rightarrow> app_state" where
  "handleRegister_settle outcome s =
     (case outcome of
        PostResolved \<Rightarrow> s\<lparr>status := Success\<rparr>
      | PostRejected \<Rightarrow>
          s\<lparr>errorMessage :=
              Some (ascii ''An error occurred during registration. Please try again.''),
            status := Ready\<rparr>)"

text \<open>The \<open>onClick\<close> of "Register another device" (line 105).\<close>

definition register_another :: "app_state \<Rightarrow> app_state" where
  "register_another s = s\<lparr>status := Ready, fullName := []\<rparr>"

subsection \<open>The session: events and what the rendered form allows\<close>

text \<open>
  The form is rendered unless \<open>status === 'success'\<close> (line 97), where the success panel
  with the "Register another device" button replaces it. The name input and the submit
  button carry \<open>disabled={status === 'submitting' || status === 'loading_ip'}\<close> (lines 140
  and 162).
\<close>

definition form_rendered :: "app_state \<Rightarrow> bool" where
  "form_rendered s \<longleftrightarrow> status s \<noteq> Success"

definition controls_disabled :: "app_state \<Rightarrow> bool" where
  "controls_disabled s \<longleftrightarrow> status s = Submitting \<or> status s = Loading_ip"

text \<open>
  What can happen to the mounted component: the mount effect calls \<open>fetchIp\<close>; an awaited
  call settles; the user edits the name, submits the form, or clicks "Register another
  device".
\<close>

datatype event =
    Mount
  | LookupSettled lookup_outcome
  | ChangeName jsstring
  | Submit
  | PostSettled post_outcome
  | RegisterAnother

text \<open>
  The component state, whether the mount effect has run, which awaited calls are
  outstanding, and every request dispatched so far.
\<close>

record session =
  ui :: app_state
  mounted :: bool
  lookup_inflight :: bool
  post_inflight :: bool
  sent :: "request list"

definition start :: session where
  "start = \<lparr>ui = initial, mounted = False, lookup_inflight = False, post_inflight = False,
            sent = []\<rparr>"

text \<open>
  One event; \<open>None\<close> when it cannot happen in that state: the effect runs once (its
  dependency \<open>fetchIp\<close> is a \<open>useCallback\<close> with no dependencies), a continuation runs
  only for a call that is outstanding, and a disabled or unrendered control receives no
  input.
\<close>

fun fire :: "constants \<Rightarrow> jsstring \<Rightarrow> event \<Rightarrow> session \<Rightarrow> session option" where
  "fire c ua Mount x =
     (if mounted x then None
      else (case fetchIp_begin c (ui x) of
              (s, reqs) \<Rightarrow>
                Some (x\<lparr>ui := s, mounted := True, lookup_inflight := True,
                        sent := sent x @ reqs\<rparr>)))"
| "fire c ua (LookupSettled outcome) x =
     (if lookup_inflight x
      then Some (x\<lparr>ui := fetchIp_settle outcome (ui x), lookup_inflight := False\<rparr>)
      else None)"
| "fire c ua (ChangeName v) x =
     (if form_rendered (ui x) \<and> \<not> controls_disabled (ui x)
      then Some (x\<lparr>ui := (ui x)\<lparr>fullName := v\<rparr>\<rparr>)
      else None)"
| "fire c ua Submit x =
     (if form_rendered (ui x) \<and> \<not> controls_disabled (ui x)
      then (case handleRegister_begin c ua (ui x) of
              (s, reqs) \<Rightarrow>
                Some (x\<lparr>ui := s, post_inflight := (post_inflight x \<or> reqs \<noteq> []),
                        sent := sent x @ reqs\<rparr>))
      else None)"
| "fire c ua (PostSettled outcome) x =
     (if post_inflight x
      then Some (x\<lparr>ui := handleRegister_settle outcome (ui x), post_inflight := False\<rparr>)
      else None)"
| "fire c ua RegisterAnother x =
     (if form_rendered (ui x) then None
      else Some (x\<lparr>ui := register_another (ui x)\<rparr>))"

fun run :: "constants \<Rightarrow> jsstring \<Rightarrow> event list \<Rightarrow> session \<Rightarrow> session option" where
  "run c ua [] x = Some x"
| "run c ua (e # es) x =
     (case fire c ua e x of None \<Rightarrow> None | Some y \<Rightarrow> run c ua es y)"

text \<open>
  The state machine as the specification draws it, without its \<open>idle\<close> node: the edges
  along which the status may change, each with the event that takes it.
\<close>

definition spec_edge :: "AppStatus \<Rightarrow> event \<Rightarrow> AppStatus \<Rightarrow> bool" where
  "spec_edge a e b =
     (case e of
        LookupSettled outcome \<Rightarrow> a = Loading_ip \<and> (b = Ready \<or> b = Error)
      | Submit \<Rightarrow> a = Ready \<and> b = Submitting
      | PostSettled outcome \<Rightarrow>
          a = Submitting \<and>
          (case outcome of PostResolved \<Rightarrow> b = Success | PostRejected \<Rightarrow> b = Ready)
      | RegisterAnother \<Rightarrow> a = Success \<and> b = Ready
      | _ \<Rightarrow> False)"

text \<open>What holds of every session reachable from \<open>start\<close>.\<close>

definition consistent :: "constants \<Rightarrow> session \<Rightarrow> bool" where
  "consistent c x \<longleftrightarrow>
     status (ui x) \<noteq> Idle \<and>
     (lookup_inflight x \<longleftrightarrow> mounted x \<and> status (ui x) = Loading_ip) \<and>
     (\<not> mounted x \<longrightarrow> status (ui x) = Loading_ip) \<and>
     (post_inflight x \<longleftrightarrow> status (ui x) = Submitting) \<and>
     (status (ui x) = Loading_ip \<or> status (ui x) = Error \<longrightarrow>
        currentIp (ui x) = JNull \<and> (\<forall>r \<in> set (sent x). request_method r = GET)) \<and>
     (status (ui x) = Submitting \<or> status (ui x) = Success \<longrightarrow>
        currentIp (ui x) = JStr (OFFICE_IP c))"

subsection \<open>Concrete inputs\<close>

definition office :: constants where
  "office = \<lparr>OFFICE_IP = ascii ''203.0.113.5'',
             WEBHOOK_URL = ascii ''https://hooks.example/exec'',
             IP_API = ascii ''https://ip.example/?format=json''\<rparr>"

definition agent :: jsstring where
  "agent = ascii ''Mozilla/5.0''"

definition jane :: jsstring where
  "jane = ascii ''Jane Doe''"

definition at_office :: app_state where
  "at_office = \<lparr>fullName = jane, currentIp = JStr (ascii ''203.0.113.5''), status = Ready,
                errorMessage = None\<rparr>"

definition elsewhere :: app_state where
  "elsewhere = \<lparr>fullName = jane, currentIp = JStr (ascii ''10.0.0.9''), status = Ready,
                errorMessage = None\<rparr>"

definition failed_session :: session where
  "failed_session =
     \<lparr>ui = \<lparr>fullName = [], currentIp = JNull, status = Error,
            errorMessage = Some (ascii ''Could not verify your network connection.'')\<rparr>,
      mounted = True, lookup_inflight = False, post_inflight = False,
      sent = [\<lparr>url = IP_API office, request_method = GET, mode = Cors, headers = [],
               body = None\<rparr>]\<rparr>"

definition found_office :: lookup_outcome where
  "found_office = Responded 200 (Some (JObj [(ascii ''ip'', JStr (ascii ''203.0.113.5''))]))"

definition ready_session :: session where
  "ready_session =
     \<lparr>ui = at_office, mounted = True, lookup_inflight = False, post_inflight = False,
      sent = [\<lparr>url = IP_API office, request_method = GET, mode = Cors, headers = [],
               body = None\<rparr>]\<rparr>"

section \<open>Properties\<close>

subsection \<open>Auxiliary facts\<close>

lemma strict_neq_string_iff: "strict_neq_string v s \<longleftrightarrow> v \<noteq> JStr s"
  by (cases v) auto

lemma set_dropWhile_all:
  "(\<forall>x \<in> set (dropWhile P xs). P x) \<longleftrightarrow> (\<forall>x \<in> set xs. P x)"
  by (induction xs) auto

lemma trim_empty_iff: "trim s = [] \<longleftrightarrow> (\<forall>c \<in> set s. strippable c)"
  by (simp add: trim_def set_dropWhile_all)

lemma consistent_start: "consistent c start"
  by (simp add: consistent_def start_def initial_def)

lemma consistent_fire:
  assumes "consistent c x" and "fire c ua e x = Some y"
  shows "consistent c y"
proof (cases e)
  case Mount
  with assms show ?thesis
    by (auto simp: consistent_def fetchIp_begin_def split: if_splits)
next
  case (LookupSettled outcome)
  with assms show ?thesis
    by (auto simp: consistent_def fetchIp_settle_def fetchIp_catch_def
             split: if_splits lookup_outcome.splits option.splits)
next
  case (ChangeName v)
  with assms show ?thesis
    by (auto simp: consistent_def form_rendered_def controls_disabled_def split: if_splits)
next
  case Submit
  with assms show ?thesis
    by (auto simp: consistent_def form_rendered_def controls_disabled_def
                   handleRegister_begin_def strict_neq_string_iff split: if_splits)
next
  case (PostSettled outcome)
  with assms show ?thesis
    by (auto simp: consistent_def handleRegister_settle_def
             split: if_splits post_outcome.splits)
next
  case RegisterAnother
  with assms show ?thesis
    by (auto simp: consistent_def form_rendered_def register_another_def split: if_splits)
qed

lemma run_append:
  "run c ua (es @ es') x =
     (case run c ua es x of None \<Rightarrow> None | Some y \<Rightarrow> run c ua es' y)"
  by (induction es arbitrary: x) (auto split: option.splits)

lemma consistent_run: "consistent c x \<Longrightarrow> run c ua es x = Some y \<Longrightarrow> consistent c y"
  by (induction es arbitrary: x) (auto split: option.splits dest: consistent_fire)

lemmas str_eval = ascii_def trim_def strippable_def isWhiteSpace_def isLineTerminator_def

lemma handleRegister_begin_pass:
  assumes "trim (fullName s) \<noteq> []" and "currentIp s = JStr (OFFICE_IP c)"
  shows "handleRegister_begin c ua s =
     (s\<lparr>errorMessage := None, status := Submitting\<rparr>,
      [\<lparr>url = WEBHOOK_URL c, request_method = POST, mode = No_cors,
        headers = [(ascii ''Content-Type'', ascii ''application/json'')],
        body = Some \<lparr>name = fullName s, userAgent = ua, ip = currentIp s\<rparr>\<rparr>])"
  using assms by (simp add: handleRegister_begin_def)

subsection \<open>Submitting with a valid name from the office network\<close>

text \<open>
  C1, as stated, fails: with a name that passes the check and the office address
  detected, the status does not reach \<open>success\<close> when the webhook call is rejected at the
  transport level; the \<open>catch\<close> block puts it back to \<open>ready\<close>.
\<close>

theorem submit_rejected_post_counterexample:
  "trim (fullName at_office) \<noteq> [] \<and> currentIp at_office = JStr (OFFICE_IP office) \<and>
   status at_office = Ready \<and>
   status (handleRegister_settle PostRejected
             (fst (handleRegister_begin office agent at_office))) = Ready"
  by (simp add: handleRegister_settle_def handleRegister_begin_def at_office_def office_def
        jane_def str_eval)

text \<open>
  C1, amended: for every name whose trimmed form is non-empty, when the detected address
  equals the office address, submitting from \<open>ready\<close> sets the status to \<open>submitting\<close> and
  dispatches exactly one request, a POST to the webhook whose payload has the entered
  name, the caller's user-agent string and the detected address; when that call settles
  without a transport-level exception the status becomes \<open>success\<close>.
\<close>

theorem submit_dispatches_one_post:
  assumes "trim (fullName s) \<noteq> []" and "currentIp s = JStr (OFFICE_IP c)"
    and "status s = Ready"
  shows "status (fst (handleRegister_begin c ua s)) = Submitting \<and>
         (\<exists>r. snd (handleRegister_begin c ua s) = [r] \<and>
              url r = WEBHOOK_URL c \<and> request_method r = POST \<and>
              body r = Some \<lparr>name = fullName s, userAgent = ua, ip = currentIp s\<rparr>) \<and>
         status (handleRegister_settle PostResolved (fst (handleRegister_begin c ua s)))
           = Success"
  using assms by (simp add: handleRegister_begin_pass handleRegister_settle_def)

theorem submit_dispatches_one_post_witness:
  "trim (fullName at_office) \<noteq> [] \<and> currentIp at_office = JStr (OFFICE_IP office) \<and>
   status at_office = Ready \<and>
   status (fst (handleRegister_begin office agent at_office)) = Submitting \<and>
   map body (snd (handleRegister_begin office agent at_office)) =
     [Some \<lparr>name = ascii ''Jane Doe'', userAgent = ascii ''Mozilla/5.0'',
            ip = JStr (ascii ''203.0.113.5'')\<rparr>] \<and>
   status (handleRegister_settle PostResolved
             (fst (handleRegister_begin office agent at_office))) = Success"
proof -
  have a: "trim (fullName at_office) \<noteq> []"
    by (simp add: at_office_def jane_def str_eval)
  have b: "currentIp at_office = JStr (OFFICE_IP office)"
    by (simp add: at_office_def office_def)
  have d: "status at_office = Ready"
    by (simp add: at_office_def)
  from submit_dispatches_one_post [OF a b d, of agent]
  obtain r where "snd (handleRegister_begin office agent at_office) = [r]"
    and "body r = Some \<lparr>name = fullName at_office, userAgent = agent, ip = currentIp at_office\<rparr>"
    and "status (fst (handleRegister_begin office agent at_office)) = Submitting"
    and "status (handleRegister_settle PostResolved
             (fst (handleRegister_begin office agent at_office))) = Success"
    by blast
  with a b d show ?thesis
    by (simp add: at_office_def agent_def jane_def)
qed

subsection \<open>The two precondition checks\<close>

text \<open>
  C2: for every name that is empty or made of whitespace only, whatever the detected
  address, submitting from \<open>ready\<close> leaves the status \<open>ready\<close>, sets the validation
  message and dispatches no request; name and address are untouched.
\<close>

theorem blank_name_is_rejected:
  assumes "\<forall>u \<in> set (fullName s). strippable u" and "status s = Ready"
  shows "status (fst (handleRegister_begin c ua s)) = Ready \<and>
         errorMessage (fst (handleRegister_begin c ua s)) =
           Some (ascii ''Please enter your full name.'') \<and>
         snd (handleRegister_begin c ua s) = [] \<and>
         fullName (fst (handleRegister_begin c ua s)) = fullName s \<and>
         currentIp (fst (handleRegister_begin c ua s)) = currentIp s"
proof -
  from assms(1) have "trim (fullName s) = []"
    by (simp add: trim_empty_iff)
  then have "handleRegister_begin c ua s =
      (s\<lparr>errorMessage := Some (ascii ''Please enter your full name.'')\<rparr>, [])"
    by (simp add: handleRegister_begin_def)
  with assms(2) show ?thesis by simp
qed

theorem blank_name_is_rejected_witness:
  "list_all strippable (fullName (at_office\<lparr>fullName := ascii '' ''\<rparr>)) \<and>
   status (at_office\<lparr>fullName := ascii '' ''\<rparr>) = Ready \<and>
   status (fst (handleRegister_begin office agent (at_office\<lparr>fullName := ascii '' ''\<rparr>)))
     = Ready \<and>
   errorMessage (fst (handleRegister_begin office agent (at_office\<lparr>fullName := ascii '' ''\<rparr>)))
     = Some (ascii ''Please enter your full name.'') \<and>
   snd (handleRegister_begin office agent (at_office\<lparr>fullName := ascii '' ''\<rparr>)) = []"
proof -
  have l: "list_all strippable (fullName (at_office\<lparr>fullName := ascii '' ''\<rparr>))"
    by (simp add: str_eval)
  then have a: "\<forall>u \<in> set (fullName (at_office\<lparr>fullName := ascii '' ''\<rparr>)). strippable u"
    by (simp add: list_all_iff)
  have b: "status (at_office\<lparr>fullName := ascii '' ''\<rparr>) = Ready"
    by (simp add: at_office_def)
  from blank_name_is_rejected [OF a b, of office agent] l b show ?thesis by simp
qed

text \<open>
  C3: for every detected address other than the office address (\<open>null\<close> included) and
  every name whose trimmed form is non-empty, submitting from \<open>ready\<close> leaves the status
  \<open>ready\<close>, dispatches no request and sets the error message to the policy text of
  line 41.
\<close>

theorem wrong_network_is_rejected:
  assumes "trim (fullName s) \<noteq> []" and "currentIp s \<noteq> JStr (OFFICE_IP c)"
    and "status s = Ready"
  shows "status (fst (handleRegister_begin c ua s)) = Ready \<and>
         snd (handleRegister_begin c ua s) = [] \<and>
         errorMessage (fst (handleRegister_begin c ua s)) = Some wrong_network_message"
  using assms by (simp add: handleRegister_begin_def strict_neq_string_iff)

theorem wrong_network_is_rejected_witness:
  "trim (fullName elsewhere) \<noteq> [] \<and> currentIp elsewhere \<noteq> JStr (OFFICE_IP office) \<and>
   status elsewhere = Ready \<and>
   status (fst (handleRegister_begin office agent elsewhere)) = Ready \<and>
   snd (handleRegister_begin office agent elsewhere) = [] \<and>
   errorMessage (fst (handleRegister_begin office agent elsewhere)) =
     Some wrong_network_message"
proof -
  have a: "trim (fullName elsewhere) \<noteq> []"
    by (simp add: elsewhere_def jane_def str_eval)
  have b: "currentIp elsewhere \<noteq> JStr (OFFICE_IP office)"
    by (simp add: elsewhere_def office_def ascii_def)
  have d: "status elsewhere = Ready"
    by (simp add: elsewhere_def)
  from wrong_network_is_rejected [OF a b d, of agent] a b d show ?thesis by simp
qed

subsection \<open>How the webhook call settles\<close>

text \<open>
  C4: after a submission that passed both checks, the status becomes \<open>success\<close> when the
  POST settles without a transport-level exception; when it raises one, the status goes
  back to \<open>ready\<close>, the submission error message is set and the entered name is kept.
\<close>

theorem post_outcome_decides:
  assumes "trim (fullName s) \<noteq> []" and "currentIp s = JStr (OFFICE_IP c)"
  shows "status (handleRegister_settle PostResolved (fst (handleRegister_begin c ua s)))
           = Success \<and>
         status (handleRegister_settle PostRejected (fst (handleRegister_begin c ua s)))
           = Ready \<and>
         errorMessage (handleRegister_settle PostRejected (fst (handleRegister_begin c ua s)))
           = Some (ascii ''An error occurred during registration. Please try again.'') \<and>
         fullName (handleRegister_settle PostRejected (fst (handleRegister_begin c ua s)))
           = fullName s"
  using assms by (simp add: handleRegister_begin_pass handleRegister_settle_def)

theorem post_outcome_decides_witness:
  "trim (fullName at_office) \<noteq> [] \<and> currentIp at_office = JStr (OFFICE_IP office) \<and>
   status (handleRegister_settle PostResolved
             (fst (handleRegister_begin office agent at_office))) = Success \<and>
   status (handleRegister_settle PostRejected
             (fst (handleRegister_begin office agent at_office))) = Ready \<and>
   fullName (handleRegister_settle PostRejected
             (fst (handleRegister_begin office agent at_office))) = ascii ''Jane Doe''"
proof -
  have a: "trim (fullName at_office) \<noteq> []"
    by (simp add: at_office_def jane_def str_eval)
  have b: "currentIp at_office = JStr (OFFICE_IP office)"
    by (simp add: at_office_def office_def)
  from post_outcome_decides [OF a b, of agent] a b show ?thesis
    by (simp add: at_office_def jane_def)
qed

subsection \<open>Registering another device\<close>

text \<open>
  C9: from \<open>success\<close>, the "register another" action yields \<open>ready\<close> with an empty name and
  the detected address unchanged.
\<close>

theorem register_another_resets:
  assumes "status s = Success"
  shows "status (register_another s) = Ready \<and> fullName (register_another s) = [] \<and>
         currentIp (register_another s) = currentIp s"
  by (simp add: register_another_def)

theorem register_another_resets_witness:
  "status (at_office\<lparr>status := Success\<rparr>) = Success \<and>
   status (register_another (at_office\<lparr>status := Success\<rparr>)) = Ready \<and>
   fullName (register_another (at_office\<lparr>status := Success\<rparr>)) = [] \<and>
   currentIp (register_another (at_office\<lparr>status := Success\<rparr>))
     = JStr (ascii ''203.0.113.5'')"
proof -
  have a: "status (at_office\<lparr>status := Success\<rparr>) = Success" by simp
  from register_another_resets [OF a] a show ?thesis
    by (simp add: at_office_def)
qed

subsection \<open>The name that is sent\<close>

text \<open>
  C10: for every submission that passes both checks, the name in the dispatched payload is
  the entered string as typed: the check looks at the trimmed form, the payload carries the
  untrimmed one, so leading and trailing whitespace is sent.
\<close>

theorem payload_name_is_verbatim:
  assumes "trim (fullName s) \<noteq> []" and "currentIp s = JStr (OFFICE_IP c)"
  shows "map (map_option name \<circ> body) (snd (handleRegister_begin c ua s))
           = [Some (fullName s)]"
  using assms by (simp add: handleRegister_begin_pass)

theorem payload_name_is_verbatim_witness:
  "trim (fullName (at_office\<lparr>fullName := ascii '' Jane Doe ''\<rparr>)) = ascii ''Jane Doe'' \<and>
   trim (fullName (at_office\<lparr>fullName := ascii '' Jane Doe ''\<rparr>)) \<noteq> [] \<and>
   currentIp (at_office\<lparr>fullName := ascii '' Jane Doe ''\<rparr>) = JStr (OFFICE_IP office) \<and>
   map (map_option name \<circ> body)
     (snd (handleRegister_begin office agent (at_office\<lparr>fullName := ascii '' Jane Doe ''\<rparr>)))
     = [Some (ascii '' Jane Doe '')] \<and>
   ascii '' Jane Doe '' \<noteq> ascii ''Jane Doe''"
proof -
  have t: "trim (fullName (at_office\<lparr>fullName := ascii '' Jane Doe ''\<rparr>)) = ascii ''Jane Doe''"
    by (simp add: str_eval)
  have a: "trim (fullName (at_office\<lparr>fullName := ascii '' Jane Doe ''\<rparr>)) \<noteq> []"
    by (simp add: str_eval)
  have b: "currentIp (at_office\<lparr>fullName := ascii '' Jane Doe ''\<rparr>) = JStr (OFFICE_IP office)"
    by (simp add: at_office_def office_def)
  have n: "ascii '' Jane Doe '' \<noteq> ascii ''Jane Doe''"
    by (simp add: ascii_def)
  from payload_name_is_verbatim [OF a b, of agent] t a b n show ?thesis by simp
qed

subsection \<open>The identity lookup\<close>

text \<open>
  C6, as stated, fails: a success response whose body parses but has no \<open>ip\<close> field does
  not lead to \<open>error\<close>. \<open>data.ip\<close> is \<open>undefined\<close>, which is stored, and the status
  becomes \<open>ready\<close> with no error message.
\<close>

theorem lookup_body_without_ip_counterexample:
  "status (fetchIp_settle
       (Responded 200 (Some (JObj [(ascii ''origin'', JStr (ascii ''203.0.113.5''))]))) initial)
     = Ready \<and>
   errorMessage (fetchIp_settle
       (Responded 200 (Some (JObj [(ascii ''origin'', JStr (ascii ''203.0.113.5''))]))) initial)
     = None \<and>
   currentIp (fetchIp_settle
       (Responded 200 (Some (JObj [(ascii ''origin'', JStr (ascii ''203.0.113.5''))]))) initial)
     = JUndefined"
  by (simp add: fetchIp_settle_def ok_def initial_def ascii_def)

text \<open>
  C6, amended: when the lookup resolves with a success status and a body that parses to
  anything but \<open>null\<close>, \<open>fetchIp\<close> stores the body's \<open>ip\<close> property (the returned address
  string when the body has one there, \<open>undefined\<close> when the body has no such field) and
  sets the status to \<open>ready\<close>; on a network error, a non-success response, a body that does
  not parse or a body that is \<open>null\<close>, it sets the connectivity error message and the
  status \<open>error\<close>.
\<close>

theorem fetchIp_settle_cases:
  "(ok code \<longrightarrow> map_of props (ascii ''ip'') = Some (JStr a) \<longrightarrow>
      fetchIp_settle (Responded code (Some (JObj props))) s
        = s\<lparr>currentIp := JStr a, status := Ready\<rparr>) \<and>
   (ok code \<longrightarrow> get_ip data = Some v \<longrightarrow>
      fetchIp_settle (Responded code (Some data)) s = s\<lparr>currentIp := v, status := Ready\<rparr>) \<and>
   (ok code \<longrightarrow> map_of props (ascii ''ip'') = None \<longrightarrow>
      fetchIp_settle (Responded code (Some (JObj props))) s
        = s\<lparr>currentIp := JUndefined, status := Ready\<rparr>) \<and>
   fetchIp_settle FetchRejected s
     = s\<lparr>errorMessage := Some (ascii ''Could not verify your network connection.''),
         status := Error\<rparr> \<and>
   (\<not> ok code \<longrightarrow>
      fetchIp_settle (Responded code parsed) s
        = s\<lparr>errorMessage := Some (ascii ''Could not verify your network connection.''),
            status := Error\<rparr>) \<and>
   fetchIp_settle (Responded code None) s
     = s\<lparr>errorMessage := Some (ascii ''Could not verify your network connection.''),
         status := Error\<rparr> \<and>
   fetchIp_settle (Responded code (Some JNull)) s
     = s\<lparr>errorMessage := Some (ascii ''Could not verify your network connection.''),
         status := Error\<rparr>"
  by (simp add: fetchIp_settle_def fetchIp_catch_def)

theorem fetchIp_settle_cases_witness:
  "ok 200 \<and> \<not> ok 503 \<and>
   map_of [(ascii ''ip'', JStr (ascii ''203.0.113.5''))] (ascii ''ip'')
     = Some (JStr (ascii ''203.0.113.5'')) \<and>
   map_of ([] :: (jsstring \<times> jsval) list) (ascii ''ip'') = None \<and>
   get_ip (JStr (ascii ''203.0.113.5'')) = Some JUndefined \<and>
   fetchIp_settle (Responded 200 (Some (JObj [(ascii ''ip'', JStr (ascii ''203.0.113.5''))])))
       initial
     = initial\<lparr>currentIp := JStr (ascii ''203.0.113.5''), status := Ready\<rparr> \<and>
   fetchIp_settle (Responded 200 (Some (JStr (ascii ''203.0.113.5'')))) initial
     = initial\<lparr>currentIp := JUndefined, status := Ready\<rparr> \<and>
   fetchIp_settle (Responded 200 (Some (JObj []))) initial
     = initial\<lparr>currentIp := JUndefined, status := Ready\<rparr> \<and>
   status (fetchIp_settle (Responded 503 None) initial) = Error"
proof -
  have a: "ok 200" and b: "\<not> ok 503"
    by (simp_all add: ok_def)
  have m: "map_of [(ascii ''ip'', JStr (ascii ''203.0.113.5''))] (ascii ''ip'')
      = Some (JStr (ascii ''203.0.113.5''))"
    by simp
  have e: "map_of ([] :: (jsstring \<times> jsval) list) (ascii ''ip'') = None"
    by simp
  have g: "get_ip (JStr (ascii ''203.0.113.5'')) = Some JUndefined"
    by simp
  from fetchIp_settle_cases
         [of 200 "[(ascii ''ip'', JStr (ascii ''203.0.113.5''))]" "ascii ''203.0.113.5''"
             initial "JStr (ascii ''203.0.113.5'')" JUndefined None]
       fetchIp_settle_cases [of 200 "[]" a initial data v None for a data v]
       fetchIp_settle_cases [of 503 props a initial data v None for props a data v]
       a b m e g
  show ?thesis by simp
qed

subsection \<open>Reachable sessions\<close>

lemma error_fire:
  assumes "consistent c x" and "status (ui x) = Error" and "fire c ua e x = Some y"
  shows "status (ui y) = Error"
proof (cases e)
  case Submit
  with assms show ?thesis
    by (auto simp: consistent_def handleRegister_begin_def strict_neq_string_iff
             split: if_splits)
next
  case Mount
  with assms show ?thesis
    by (auto simp: consistent_def split: if_splits)
next
  case (LookupSettled outcome)
  with assms show ?thesis
    by (auto simp: consistent_def split: if_splits)
next
  case (ChangeName v)
  with assms show ?thesis
    by (auto split: if_splits)
next
  case (PostSettled outcome)
  with assms show ?thesis
    by (auto simp: consistent_def split: if_splits)
next
  case RegisterAnother
  with assms show ?thesis
    by (auto simp: form_rendered_def split: if_splits)
qed

lemma error_run:
  "consistent c x \<Longrightarrow> status (ui x) = Error \<Longrightarrow> run c ua es x = Some y \<Longrightarrow>
   status (ui y) = Error"
proof (induction es arbitrary: x)
  case Nil
  then show ?case by simp
next
  case (Cons e es)
  from Cons.prems(3) obtain x' where f: "fire c ua e x = Some x'"
    and r: "run c ua es x' = Some y"
    by (auto split: option.splits)
  from Cons.prems(1) f have "consistent c x'"
    by (rule consistent_fire)
  moreover from Cons.prems(1,2) f have "status (ui x') = Error"
    by (rule error_fire)
  ultimately show ?case
    using r by (rule Cons.IH)
qed

lemma lookup_history:
  "run c ua es start = Some x \<Longrightarrow>
   status (ui x) = Ready \<or> status (ui x) = Submitting \<or> status (ui x) = Success \<Longrightarrow>
   \<exists>code data. LookupSettled (Responded code (Some data)) \<in> set es \<and> ok code \<and>
               get_ip data = Some (currentIp (ui x))"
proof (induction es arbitrary: x rule: rev_induct)
  case Nil
  then show ?case by (auto simp: start_def initial_def)
next
  case (snoc e es)
  from snoc.prems(1) obtain w where rw: "run c ua es start = Some w"
    and f: "fire c ua e w = Some x"
    by (auto simp: run_append split: option.splits)
  have cw: "consistent c w"
    using consistent_run [OF consistent_start rw] .
  show ?case
  proof (cases e)
    case Mount
    with f snoc.prems(2) show ?thesis
      by (auto simp: fetchIp_begin_def split: if_splits)
  next
    case (LookupSettled outcome)
    with f snoc.prems(2) have "\<exists>code data. outcome = Responded code (Some data) \<and> ok code \<and>
        get_ip data = Some (currentIp (ui x))"
      by (auto simp: fetchIp_settle_def fetchIp_catch_def
               split: if_splits lookup_outcome.splits option.splits)
    with LookupSettled show ?thesis
      by fastforce
  next
    case (ChangeName v)
    with f snoc.prems(2) have "status (ui w) = Ready \<or> status (ui w) = Submitting \<or> status (ui w) = Success"
      and "currentIp (ui x) = currentIp (ui w)"
      by (auto split: if_splits)
    with snoc.IH [OF rw] show ?thesis by auto
  next
    case Submit
    with f snoc.prems(2) cw have "status (ui w) = Ready \<or> status (ui w) = Submitting \<or> status (ui w) = Success"
      and "currentIp (ui x) = currentIp (ui w)"
      by (cases "status (ui w)";
          auto simp: handleRegister_begin_def form_rendered_def controls_disabled_def
                     consistent_def strict_neq_string_iff split: if_splits)+
    with snoc.IH [OF rw] show ?thesis by auto
  next
    case (PostSettled outcome)
    with f snoc.prems(2) cw have "status (ui w) = Ready \<or> status (ui w) = Submitting \<or> status (ui w) = Success"
      and "currentIp (ui x) = currentIp (ui w)"
      by (auto simp: handleRegister_settle_def consistent_def
               split: if_splits post_outcome.splits)
    with snoc.IH [OF rw] show ?thesis by auto
  next
    case RegisterAnother
    with f snoc.prems(2) have "status (ui w) = Ready \<or> status (ui w) = Submitting \<or> status (ui w) = Success"
      and "currentIp (ui x) = currentIp (ui w)"
      by (auto simp: register_another_def form_rendered_def split: if_splits)
    with snoc.IH [OF rw] show ?thesis by auto
  qed
qed

text \<open>
  C8, as stated, fails: a run does not begin in \<open>idle\<close>. The initial status is
  \<open>loading_ip\<close>, and the mount effect sets \<open>loading_ip\<close> again.
\<close>

theorem initial_status_counterexample:
  "status (ui start) = Loading_ip \<and> status (ui start) \<noteq> Idle \<and>
   map_option (status \<circ> ui) (run office agent [Mount] start) = Some Loading_ip"
  by (simp add: start_def initial_def fetchIp_begin_def)

text \<open>
  C8, amended: every run begins in \<open>loading_ip\<close> and \<open>idle\<close> is never entered; from there
  the status changes only along the edges of the state machine: \<open>loading_ip\<close> resolves to
  \<open>ready\<close> or \<open>error\<close> when the lookup settles, \<open>ready\<close> goes to \<open>submitting\<close> on submit,
  \<open>submitting\<close> resolves to \<open>success\<close> or back to \<open>ready\<close> with an error message when the
  POST settles, and \<open>success\<close> returns to \<open>ready\<close> by the "register another" action.
\<close>

theorem status_moves_along_edges:
  assumes "run c ua es start = Some x" and "fire c ua e x = Some y"
  shows "status (ui start) = Loading_ip \<and> status (ui x) \<noteq> Idle \<and> status (ui y) \<noteq> Idle \<and>
         (status (ui y) = status (ui x) \<or> spec_edge (status (ui x)) e (status (ui y))) \<and>
         (status (ui x) = Submitting \<and> status (ui y) = Ready \<longrightarrow> errorMessage (ui y) \<noteq> None)"
proof -
  have x: "consistent c x"
    using consistent_run [OF consistent_start assms(1)] .
  then have y: "consistent c y"
    using assms(2) by (rule consistent_fire)
  have s0: "status (ui start) = Loading_ip"
    by (simp add: start_def initial_def)
  have edge: "status (ui y) = status (ui x) \<or> spec_edge (status (ui x)) e (status (ui y))"
  proof (cases e)
    case Mount
    with x assms(2) show ?thesis
      by (auto simp: consistent_def fetchIp_begin_def split: if_splits)
  next
    case (LookupSettled outcome)
    with x assms(2) show ?thesis
      by (auto simp: consistent_def spec_edge_def fetchIp_settle_def fetchIp_catch_def
               split: if_splits lookup_outcome.splits option.splits)
  next
    case (ChangeName v)
    with assms(2) show ?thesis
      by (auto split: if_splits)
  next
    case Submit
    with x assms(2) show ?thesis
      by (cases "status (ui x)")
         (auto simp: consistent_def spec_edge_def form_rendered_def controls_disabled_def
                     handleRegister_begin_def strict_neq_string_iff split: if_splits)
  next
    case (PostSettled outcome)
    with x assms(2) show ?thesis
      by (auto simp: consistent_def spec_edge_def handleRegister_settle_def
               split: if_splits post_outcome.splits)
  next
    case RegisterAnother
    with assms(2) show ?thesis
      by (auto simp: spec_edge_def form_rendered_def register_another_def split: if_splits)
  qed
  have err: "status (ui x) = Submitting \<and> status (ui y) = Ready \<longrightarrow> errorMessage (ui y) \<noteq> None"
  proof (cases e)
    case (PostSettled outcome)
    with assms(2) show ?thesis
      by (auto simp: handleRegister_settle_def split: if_splits post_outcome.splits)
  next
    case Submit
    with assms(2) show ?thesis
      by (auto simp: controls_disabled_def split: if_splits)
  next
    case (ChangeName v)
    with assms(2) show ?thesis
      by (auto simp: controls_disabled_def split: if_splits)
  next
    case Mount
    with assms(2) show ?thesis
      by (auto simp: fetchIp_begin_def split: if_splits)
  next
    case (LookupSettled outcome)
    with x assms(2) show ?thesis
      by (auto simp: consistent_def split: if_splits)
  next
    case RegisterAnother
    with assms(2) show ?thesis
      by (auto simp: form_rendered_def split: if_splits)
  qed
  from x y s0 edge err show ?thesis
    by (simp add: consistent_def)
qed

theorem status_moves_along_edges_witness:
  "run office agent [Mount, LookupSettled found_office, ChangeName jane] start
     = Some ready_session \<and>
   map_option (status \<circ> ui) (fire office agent Submit ready_session) = Some Submitting \<and>
   status (ui ready_session) = Ready \<and> spec_edge Ready Submit Submitting"
proof -
  have a: "run office agent [Mount, LookupSettled found_office, ChangeName jane] start
      = Some ready_session"
    by (simp add: start_def initial_def fetchIp_begin_def fetchIp_settle_def found_office_def
          ok_def form_rendered_def controls_disabled_def ready_session_def at_office_def)
  obtain y where b: "fire office agent Submit ready_session = Some y"
    and sy: "status (ui y) = Submitting"
    by (simp add: ready_session_def at_office_def office_def form_rendered_def
          controls_disabled_def handleRegister_begin_def jane_def str_eval)
  have sx: "status (ui ready_session) = Ready"
    by (simp add: ready_session_def at_office_def)
  from status_moves_along_edges [OF a b] sx sy have "spec_edge Ready Submit Submitting"
    by simp
  with a b sx sy show ?thesis by simp
qed

text \<open>
  C5, as stated, fails: in \<open>error\<close> the form is rendered and neither the input nor the
  submit button is disabled, so \<open>handleRegister\<close> can run there. After a failed lookup the
  user can type a name and submit; the handler replaces the error message.
\<close>

theorem submit_enabled_in_error_counterexample:
  "run office agent [Mount, LookupSettled FetchRejected] start = Some failed_session \<and>
   status (ui failed_session) = Error \<and>
   form_rendered (ui failed_session) \<and> \<not> controls_disabled (ui failed_session) \<and>
   fire office agent Submit failed_session =
     Some (failed_session
            \<lparr>ui := (ui failed_session)
                     \<lparr>errorMessage := Some (ascii ''Please enter your full name.'')\<rparr>\<rparr>)"
  by (simp add: start_def initial_def fetchIp_begin_def fetchIp_settle_def fetchIp_catch_def
        failed_session_def form_rendered_def controls_disabled_def handleRegister_begin_def
        trim_def)

text \<open>
  C5, amended: if the identity lookup fails (network error or non-success HTTP status),
  the status becomes \<open>error\<close> and remains \<open>error\<close> for the rest of the session, and no POST
  is ever dispatched. The input and the submit button are not disabled in that state:
  submitting is possible, and it only replaces the error message by the validation or
  the policy text.
\<close>

theorem failed_lookup_is_terminal:
  assumes "run c ua (es @ LookupSettled outcome # es') start = Some z"
    and "outcome = FetchRejected \<or> (outcome = Responded code parsed \<and> \<not> ok code)"
  shows "status (ui z) = Error \<and>
         (\<forall>r \<in> set (sent z). request_method r \<noteq> POST) \<and>
         form_rendered (ui z) \<and> \<not> controls_disabled (ui z) \<and>
         (\<exists>y. fire c ua Submit z = Some y \<and> status (ui y) = Error \<and> sent y = sent z \<and>
              (errorMessage (ui y) = Some (ascii ''Please enter your full name.'') \<or>
               errorMessage (ui y) = Some wrong_network_message))"
proof -
  from assms(1) obtain x y where rx: "run c ua es start = Some x"
    and f: "fire c ua (LookupSettled outcome) x = Some y"
    and rz: "run c ua es' y = Some z"
    by (auto simp: run_append split: option.splits)
  have cx: "consistent c x"
    using consistent_run [OF consistent_start rx] .
  then have cy: "consistent c y"
    using f by (rule consistent_fire)
  from f assms(2) have ey: "status (ui y) = Error"
    by (auto simp: fetchIp_settle_def fetchIp_catch_def split: if_splits)
  have cz: "consistent c z"
    using cy rz by (rule consistent_run)
  have ez: "status (ui z) = Error"
    using cy ey rz by (rule error_run)
  from cz ez have ip: "currentIp (ui z) = JNull" and gets: "\<forall>r \<in> set (sent z). request_method r = GET"
    and np: "\<not> post_inflight z"
    by (simp_all add: consistent_def)
  from gets have a: "\<forall>r \<in> set (sent z). request_method r \<noteq> POST"
    by auto
  from ez have b: "form_rendered (ui z) \<and> \<not> controls_disabled (ui z)"
    by (simp add: form_rendered_def controls_disabled_def)
  from ez ip np b
  have d: "\<exists>y. fire c ua Submit z = Some y \<and> status (ui y) = Error \<and> sent y = sent z \<and>
              (errorMessage (ui y) = Some (ascii ''Please enter your full name.'') \<or>
               errorMessage (ui y) = Some wrong_network_message)"
    by (simp add: handleRegister_begin_def)
  from ez a b d show ?thesis by blast
qed

theorem failed_lookup_is_terminal_witness:
  "run office agent ([Mount] @ LookupSettled (Responded 503 None) # [ChangeName jane, Submit])
     start
     = Some (failed_session
              \<lparr>ui := (ui failed_session)
                       \<lparr>fullName := jane, errorMessage := Some wrong_network_message\<rparr>\<rparr>) \<and>
   status (ui (failed_session
              \<lparr>ui := (ui failed_session)
                       \<lparr>fullName := jane, errorMessage := Some wrong_network_message\<rparr>\<rparr>))
     = Error"
proof -
  have a: "run office agent
             ([Mount] @ LookupSettled (Responded 503 None) # [ChangeName jane, Submit]) start
     = Some (failed_session
              \<lparr>ui := (ui failed_session)
                       \<lparr>fullName := jane, errorMessage := Some wrong_network_message\<rparr>\<rparr>)"
    by (simp add: start_def initial_def fetchIp_begin_def fetchIp_settle_def fetchIp_catch_def
          failed_session_def ok_def form_rendered_def controls_disabled_def
          handleRegister_begin_def jane_def str_eval)
  have b: "Responded 503 None = FetchRejected \<or>
    (Responded 503 None = Responded 503 None \<and> \<not> ok 503)"
    by (simp add: ok_def)
  from failed_lookup_is_terminal [OF a b] a show ?thesis by blast
qed

text \<open>
  C7, as stated, fails: after a failed lookup the status is \<open>error\<close> and the detected
  address is still \<open>null\<close>.
\<close>

theorem address_absent_in_error_counterexample:
  "run office agent [Mount, LookupSettled FetchRejected] start = Some failed_session \<and>
   status (ui failed_session) = Error \<and> currentIp (ui failed_session) = JNull"
  by (simp add: start_def initial_def fetchIp_begin_def fetchIp_settle_def fetchIp_catch_def
        failed_session_def)

text \<open>
  C7, amended: in every reachable session the detected address is absent (\<open>null\<close>) while
  the status is \<open>loading_ip\<close> and also in \<open>error\<close>; in \<open>ready\<close>, \<open>submitting\<close> and
  \<open>success\<close> it is the \<open>ip\<close> property of the body of a successful lookup response, and in
  \<open>submitting\<close> and \<open>success\<close> it is the office address.
\<close>

theorem currentIp_by_status:
  assumes "run c ua es start = Some x"
  shows "(status (ui x) = Loading_ip \<or> status (ui x) = Error \<longrightarrow> currentIp (ui x) = JNull) \<and>
         (status (ui x) = Submitting \<or> status (ui x) = Success \<longrightarrow>
            currentIp (ui x) = JStr (OFFICE_IP c)) \<and>
         (status (ui x) = Ready \<or> status (ui x) = Submitting \<or> status (ui x) = Success \<longrightarrow>
            (\<exists>code data. LookupSettled (Responded code (Some data)) \<in> set es \<and> ok code \<and>
                         get_ip data = Some (currentIp (ui x))))"
proof -
  have "consistent c x"
    using consistent_run [OF consistent_start assms] .
  then have "status (ui x) = Loading_ip \<or> status (ui x) = Error \<longrightarrow> currentIp (ui x) = JNull"
    and "status (ui x) = Submitting \<or> status (ui x) = Success \<longrightarrow>
            currentIp (ui x) = JStr (OFFICE_IP c)"
    by (simp_all add: consistent_def)
  with lookup_history [OF assms] show ?thesis by blast
qed

theorem currentIp_by_status_witness:
  "run office agent [Mount, LookupSettled found_office, ChangeName jane] start
     = Some ready_session \<and>
   status (ui ready_session) = Ready \<and>
   currentIp (ui ready_session) = JStr (ascii ''203.0.113.5'') \<and>
   (\<exists>code data.
      LookupSettled (Responded code (Some data))
        \<in> set [Mount, LookupSettled found_office, ChangeName jane] \<and>
      ok code \<and> get_ip data = Some (currentIp (ui ready_session)))"
proof -
  have a: "run office agent [Mount, LookupSettled found_office, ChangeName jane] start
      = Some ready_session"
    by (simp add: start_def initial_def fetchIp_begin_def fetchIp_settle_def found_office_def
          ok_def form_rendered_def controls_disabled_def ready_session_def at_office_def)
  have sx: "status (ui ready_session) = Ready"
    and ip: "currentIp (ui ready_session) = JStr (ascii ''203.0.113.5'')"
    by (simp_all add: ready_session_def at_office_def)
  from currentIp_by_status [OF a] a sx ip show ?thesis
    by blast
qed

end
